theory Spec2Isabelle
  imports Complex_Main "HOL-Library.Sublist"
begin

section \<open>JavaScript values\<close>

subsection \<open>Strings\<close>

text \<open>
  A JavaScript string is a sequence of UTF-16 code units. The source uses characters
  outside ASCII (the full-width comma U+FF0C, Chinese literals), so a string is modelled
  as a list of code units, each a natural number; \<open>utf16\<close> embeds an ASCII literal.
\<close>

type_synonym jsstring = "nat list"

definition utf16 :: "string \<Rightarrow> jsstring" where
  "utf16 s = map of_char s"

text \<open>\<open>String.prototype.includes\<close>: the argument occurs as a contiguous run.\<close>

fun str_includes :: "jsstring \<Rightarrow> jsstring \<Rightarrow> bool" where
  "str_includes [] m = (m = [])"
| "str_includes (c # s) m = (prefix m (c # s) \<or> str_includes s m)"

text \<open>
  The code units that \<open>trim\<close> and \<open>parseFloat\<close> skip: WhiteSpace and LineTerminator
  of ECMAScript (TAB, LF, VT, FF, CR, SP, NBSP, U+1680, U+2000..U+200A, U+2028, U+2029,
  U+202F, U+205F, U+3000, U+FEFF).
\<close>

definition isWhiteSpace :: "nat \<Rightarrow> bool" where
  "isWhiteSpace c \<longleftrightarrow>
     (9 \<le> c \<and> c \<le> 13) \<or> c = 32 \<or> c = 160 \<or> c = 5760 \<or> (8192 \<le> c \<and> c \<le> 8202) \<or>
     c = 8232 \<or> c = 8233 \<or> c = 8239 \<or> c = 8287 \<or> c = 12288 \<or> c = 65279"

definition trimStart :: "jsstring \<Rightarrow> jsstring" where
  "trimStart s = dropWhile isWhiteSpace s"

definition trim :: "jsstring \<Rightarrow> jsstring" where
  "trim s = rev (dropWhile isWhiteSpace (rev (dropWhile isWhiteSpace s)))"

text \<open>\<open>\d\<close> of a JavaScript regular expression without the unicode flag: ASCII 0 to 9.\<close>

definition isDigit :: "nat \<Rightarrow> bool" where
  "isDigit c \<longleftrightarrow> 48 \<le> c \<and> c \<le> 57"

subsection \<open>Numbers\<close>

text \<open>
  A JavaScript number is NaN, an infinity or a finite value. Finite values are modelled
  as real numbers: rounding to the nearest double, overflow of finite arithmetic and the
  sign of zero are outside the model.
\<close>

datatype jsnum = NaN | NegInf | Fin real | PosInf

text \<open>Truthiness of a number: \<open>0\<close> and NaN are falsy.\<close>

fun num_truthy :: "jsnum \<Rightarrow> bool" where
  "num_truthy NaN = False"
| "num_truthy (Fin x) = (x \<noteq> 0)"
| "num_truthy _ = True"

text \<open>\<open>x || 0\<close> on a number.\<close>

definition or_zero :: "jsnum \<Rightarrow> jsnum" where
  "or_zero x = (if num_truthy x then x else Fin 0)"

fun js_neg :: "jsnum \<Rightarrow> jsnum" where
  "js_neg NaN = NaN"
| "js_neg NegInf = PosInf"
| "js_neg PosInf = NegInf"
| "js_neg (Fin x) = Fin (- x)"

fun js_add :: "jsnum \<Rightarrow> jsnum \<Rightarrow> jsnum" where
  "js_add NaN _ = NaN"
| "js_add _ NaN = NaN"
| "js_add (Fin x) (Fin y) = Fin (x + y)"
| "js_add PosInf NegInf = NaN"
| "js_add NegInf PosInf = NaN"
| "js_add PosInf _ = PosInf"
| "js_add _ PosInf = PosInf"
| "js_add NegInf _ = NegInf"
| "js_add _ NegInf = NegInf"

text \<open>The sign of a non-NaN number, as an integer.\<close>

fun js_sign :: "jsnum \<Rightarrow> int" where
  "js_sign (Fin x) = (if x < 0 then - 1 else if x = 0 then 0 else 1)"
| "js_sign PosInf = 1"
| "js_sign NegInf = - 1"
| "js_sign NaN = 0"

fun js_mul :: "jsnum \<Rightarrow> jsnum \<Rightarrow> jsnum" where
  "js_mul NaN _ = NaN"
| "js_mul _ NaN = NaN"
| "js_mul (Fin x) (Fin y) = Fin (x * y)"
| "js_mul a b =
     (if js_sign a * js_sign b = 0 then NaN
      else if js_sign a * js_sign b > 0 then PosInf else NegInf)"

fun js_div :: "jsnum \<Rightarrow> jsnum \<Rightarrow> jsnum" where
  "js_div NaN _ = NaN"
| "js_div _ NaN = NaN"
| "js_div (Fin x) (Fin y) =
     (if y \<noteq> 0 then Fin (x / y)
      else if x = 0 then NaN else if x > 0 then PosInf else NegInf)"
| "js_div (Fin x) _ = Fin 0"
| "js_div a (Fin y) =
     (if js_sign a * (if y < 0 then - 1 else 1) > 0 then PosInf else NegInf)"
| "js_div _ _ = NaN"

text \<open>\<open>Math.log10\<close>: NaN below zero, minus infinity at zero.\<close>

fun js_log10 :: "jsnum \<Rightarrow> jsnum" where
  "js_log10 NaN = NaN"
| "js_log10 NegInf = NaN"
| "js_log10 PosInf = PosInf"
| "js_log10 (Fin x) = (if x < 0 then NaN else if x = 0 then NegInf else Fin (log 10 x))"

text \<open>\<open>Math.round\<close>: the nearest integer, a tie going up.\<close>

fun js_round :: "jsnum \<Rightarrow> jsnum" where
  "js_round (Fin x) = Fin (of_int \<lfloor>x + 1 / 2\<rfloor>)"
| "js_round v = v"

text \<open>\<open>Math.min\<close> of two numbers: NaN if either is NaN.\<close>

fun js_min :: "jsnum \<Rightarrow> jsnum \<Rightarrow> jsnum" where
  "js_min NaN _ = NaN"
| "js_min _ NaN = NaN"
| "js_min NegInf _ = NegInf"
| "js_min _ NegInf = NegInf"
| "js_min PosInf b = b"
| "js_min a PosInf = a"
| "js_min (Fin x) (Fin y) = Fin (min x y)"

subsection \<open>parseFloat\<close>

text \<open>The value of a run of decimal digits, and of the digits after the point.\<close>

definition digitsValue :: "jsstring \<Rightarrow> nat" where
  "digitsValue ds = foldl (\<lambda>a c. 10 * a + (c - 48)) 0 ds"

definition decimalValue :: "jsstring \<Rightarrow> jsstring \<Rightarrow> real" where
  "decimalValue ip fp = real (digitsValue ip) + real (digitsValue fp) / 10 ^ length fp"

text \<open>
  The exponent part \<open>[eE][+-]?digits\<close> at the head of the rest, as a power of ten;
  without a well-formed exponent part the factor is one.
\<close>

definition exponentFactor :: "jsstring \<Rightarrow> real" where
  "exponentFactor r =
     (case r of
        [] \<Rightarrow> 1
      | e # r1 \<Rightarrow>
          if e \<noteq> 101 \<and> e \<noteq> 69 then 1
          else (case r1 of
                  [] \<Rightarrow> 1
                | s # r2 \<Rightarrow>
                    if s = 45 then
                      (if takeWhile isDigit r2 = [] then 1
                       else 1 / 10 ^ digitsValue (takeWhile isDigit r2))
                    else if s = 43 then
                      (if takeWhile isDigit r2 = [] then 1
                       else 10 ^ digitsValue (takeWhile isDigit r2))
                    else if takeWhile isDigit r1 = [] then 1
                    else 10 ^ digitsValue (takeWhile isDigit r1)))"

text \<open>
  The longest prefix that is an unsigned \<open>StrDecimalLiteral\<close>: \<open>Infinity\<close>, or digits
  with an optional point and fraction, or a point and a fraction, each with an optional
  exponent part. NaN when there is none.
\<close>

definition parseUnsigned :: "jsstring \<Rightarrow> jsnum" where
  "parseUnsigned r =
     (if prefix (utf16 ''Infinity'') r then PosInf
      else
        let ip = takeWhile isDigit r; r1 = dropWhile isDigit r
        in (case r1 of
              c # r2 \<Rightarrow>
                if c = 46 then
                  (let fp = takeWhile isDigit r2
                   in if ip = [] \<and> fp = [] then NaN
                      else Fin (decimalValue ip fp * exponentFactor (dropWhile isDigit r2)))
                else if ip = [] then NaN
                else Fin (decimalValue ip [] * exponentFactor r1)
            | [] \<Rightarrow> if ip = [] then NaN else Fin (decimalValue ip [])))"

text \<open>\<open>parseFloat\<close> of a string: leading white space skipped, then an optional sign.\<close>

definition parseFloat :: "jsstring \<Rightarrow> jsnum" where
  "parseFloat s =
     (case trimStart s of
        [] \<Rightarrow> NaN
      | c # r \<Rightarrow>
          if c = 45 then js_neg (parseUnsigned r)
          else if c = 43 then parseUnsigned r
          else parseUnsigned (c # r))"

subsection \<open>Spreadsheet cells\<close>

text \<open>
  A cell of an input row is a string or a number. \<open>parseFloat\<close> of a number converts it
  to a string and parses that back, which gives the number itself.
\<close>

datatype cell = Str jsstring | Num jsnum

fun parseFloatCell :: "cell \<Rightarrow> jsnum" where
  "parseFloatCell (Str s) = parseFloat s"
| "parseFloatCell (Num x) = x"

section \<open>Numeric metrics\<close>

subsection \<open>calculateVolumeQuality\<close>

text \<open>
  \<open>x.replace(/[kK]/g, '000')\<close>: every k or K becomes three zeros.
  \<open>.replace(/[^\d\.]/g, '')\<close>: everything but digits and the point is deleted.
\<close>

definition replaceK :: "jsstring \<Rightarrow> jsstring" where
  "replaceK x = concat (map (\<lambda>c. if c = 107 \<or> c = 75 then utf16 ''000'' else [c]) x)"

definition stripNonNumeric :: "jsstring \<Rightarrow> jsstring" where
  "stripNonNumeric x = filter (\<lambda>c. isDigit c \<or> c = 46) x"

fun cleanNum :: "cell \<Rightarrow> jsnum" where
  "cleanNum (Str x) = or_zero (parseFloat (stripNonNumeric (replaceK x)))"
| "cleanNum (Num x) = or_zero (parseFloatCell (Num x))"

text \<open>
  The \<open>catch\<close> branch of the source (result 1.0) is not reachable for string and number
  arguments: nothing in the \<open>try\<close> block throws on them.
\<close>

definition calculateVolumeQuality :: "cell \<Rightarrow> cell \<Rightarrow> jsnum" where
  "calculateVolumeQuality views interactions =
     (let v = cleanNum views;
          i = cleanNum interactions;
          rawScore = js_mul (js_log10 (js_add (js_add v (js_mul i (Fin 5))) (Fin 10))) (Fin 1.5)
      in js_min (Fin 10) (js_div (js_round (js_mul rawScore (Fin 10))) (Fin 10)))"

subsection \<open>getMediaTierScore\<close>

record Tiers =
  tier1 :: jsstring
  tier2 :: jsstring
  tier3 :: jsstring

text \<open>
  \<open>t.split(/[,\<dots>]/)\<close> with the ASCII comma (44) and the full-width comma U+FF0C (65292):
  the pieces between the separators, empty pieces kept; one empty piece for the empty
  string. The last case of the inner \<open>case\<close> never arises, the result having a piece.
\<close>

definition isComma :: "nat \<Rightarrow> bool" where
  "isComma c \<longleftrightarrow> c = 44 \<or> c = 65292"

fun splitOn :: "(nat \<Rightarrow> bool) \<Rightarrow> jsstring \<Rightarrow> jsstring list" where
  "splitOn P [] = [[]]"
| "splitOn P (c # s) =
     (if P c then [] # splitOn P s
      else (case splitOn P s of p # ps \<Rightarrow> (c # p) # ps | [] \<Rightarrow> [[c]]))"

text \<open>
  \<open>String.prototype.toLowerCase\<close> follows the Unicode case mappings, which are not part
  of the source; the functions below take it as the parameter \<open>lower\<close>. \<open>asciiLower\<close> is
  its restriction to ASCII letters, for evaluation.
\<close>

definition asciiLower :: "jsstring \<Rightarrow> jsstring" where
  "asciiLower s = map (\<lambda>c. if 65 \<le> c \<and> c \<le> 90 then c + 32 else c) s"

text \<open>\<open>parse\<close> of the source: split, trim and lower-case each piece, drop the empty ones.\<close>

definition parse :: "(jsstring \<Rightarrow> jsstring) \<Rightarrow> jsstring \<Rightarrow> jsstring list" where
  "parse lower t = filter (\<lambda>x. x \<noteq> []) (map (\<lambda>x. lower (trim x)) (splitOn isComma t))"

text \<open>
  The media name is a string or missing (\<open>None\<close> for \<open>undefined\<close> and \<open>null\<close>); the
  guard \<open>!mediaName\<close> takes the missing and the empty name.
\<close>

definition getMediaTierScore :: "(jsstring \<Rightarrow> jsstring) \<Rightarrow> Tiers \<Rightarrow> jsstring option \<Rightarrow> jsnum" where
  "getMediaTierScore lower tiers mediaName =
     (case mediaName of
        None \<Rightarrow> Fin 3
      | Some name \<Rightarrow>
          if name = [] then Fin 3
          else
            let mName = trim (lower name)
            in if list_ex (\<lambda>m. str_includes mName m) (parse lower (tier1 tiers)) then Fin 10
               else if list_ex (\<lambda>m. str_includes mName m) (parse lower (tier2 tiers)) then Fin 8
               else if list_ex (\<lambda>m. str_includes mName m) (parse lower (tier3 tiers)) then Fin 5
               else Fin 3)"

section \<open>The AI scorer client\<close>

record AIAnalysisResult =
  km_score :: jsnum
  acquisition_score :: jsnum
  audience_precision_score :: jsnum
  comment :: jsstring

text \<open>
  What one execution of the \<open>try\<close> block meets: \<open>generateContent\<close> throws an error with
  a message, or the response has no text, or \<open>JSON.parse\<close> throws an error with a message,
  or the text parses to an object of the declared result type (the response schema of the
  request requires the four fields, and the source casts the parsed value without a
  check). Thrown values are \<open>Error\<close> objects, whose message is a string. The prompt
  (with \<open>content.substring(0, 5000)\<close>) only feeds the remote call and is not modelled.
\<close>

datatype response = Throws jsstring | NoText | BadJson jsstring | Parsed AIAnalysisResult

text \<open>The message of \<open>new Error(\<dots>)\<close> for an empty response: AI, space, U+8FD4 U+56DE U+4E86 U+7A7A U+54CD U+5E94.\<close>

definition emptyResponseMsg :: jsstring where
  "emptyResponseMsg = [65, 73, 32, 36820, 22238, 20102, 31354, 21709, 24212]"

text \<open>The message thrown when \<open>process.env.API_KEY\<close> is missing (line 16 of the service).\<close>

definition apiKeyMissingMsg :: jsstring where
  "apiKeyMissingMsg =
     [65, 80, 73, 95, 75, 69, 89, 32, 32570, 22833, 65281, 35831, 30830, 20445, 24050, 22312,
      32, 78, 101, 116, 108, 105, 102, 121, 32, 29615, 22659, 21464, 37327, 20013, 35774,
      32622, 32, 65, 80, 73, 95, 75, 69, 89, 12290]"

text \<open>The message of the \<open>throw\<close> after the loop (line 75): U+91CD U+8BD5 U+8017 U+5C3D.\<close>

definition retriesExhaustedMsg :: jsstring where
  "retriesExhaustedMsg = [37325, 35797, 32791, 23613]"

text \<open>The \<open>try\<close> block: the message of the error it throws, or the result it returns.\<close>

fun attempt :: "response \<Rightarrow> jsstring + AIAnalysisResult" where
  "attempt (Throws msg) = Inl msg"
| "attempt NoText = Inl emptyResponseMsg"
| "attempt (BadJson msg) = Inl msg"
| "attempt (Parsed r) = Inr r"

definition isRateLimit :: "jsstring \<Rightarrow> bool" where
  "isRateLimit errorMsg \<longleftrightarrow>
     str_includes errorMsg (utf16 ''429'') \<or> str_includes errorMsg (utf16 ''RESOURCE_EXHAUSTED'')"

text \<open>
  What a call of \<open>analyzeWithGemini\<close> did: its outcome (the message of the error thrown to
  the caller, or the result), the delays it waited in order, in milliseconds, and the
  number of remote calls it made.
\<close>

record call_trace =
  outcome :: "jsstring + AIAnalysisResult"
  delays :: "int list"
  calls :: nat

text \<open>
  The loop \<open>while (retries >= 0)\<close>. \<open>generateContent n\<close> is what the \<open>n\<close>-th remote
  call of this invocation meets; \<open>waited\<close> collects the delays.
\<close>

function retryLoop :: "(nat \<Rightarrow> response) \<Rightarrow> int \<Rightarrow> int \<Rightarrow> nat \<Rightarrow> int list \<Rightarrow> call_trace" where
  "retryLoop generateContent retries backoffMs n waited =
     (if retries \<ge> 0 then
        (case attempt (generateContent n) of
           Inr r \<Rightarrow> \<lparr>outcome = Inr r, delays = waited, calls = Suc n\<rparr>
         | Inl errorMsg \<Rightarrow>
             if isRateLimit errorMsg \<and> retries > 0
             then retryLoop generateContent (retries - 1) (backoffMs * 2) (Suc n) (waited @ [backoffMs])
             else \<lparr>outcome = Inl errorMsg, delays = waited, calls = Suc n\<rparr>)
      else \<lparr>outcome = Inl retriesExhaustedMsg, delays = waited, calls = n\<rparr>)"
  by pat_completeness auto
termination
  by (relation "measure (\<lambda>(g, retries, b, n, w). nat retries)") auto

text \<open>\<open>!apiKey || apiKey === "undefined" || apiKey === ""\<close>, the key being a string or undefined.\<close>

definition apiKeyMissing :: "jsstring option \<Rightarrow> bool" where
  "apiKeyMissing apiKey \<longleftrightarrow>
     (case apiKey of None \<Rightarrow> True | Some k \<Rightarrow> k = [] \<or> k = utf16 ''undefined'')"

definition analyzeWithGemini :: "jsstring option \<Rightarrow> (nat \<Rightarrow> response) \<Rightarrow> call_trace" where
  "analyzeWithGemini apiKey generateContent =
     (if apiKeyMissing apiKey then \<lparr>outcome = Inl apiKeyMissingMsg, delays = [], calls = 0\<rparr>
      else retryLoop generateContent 3 2000 0 [])"

section \<open>Score composition\<close>

text \<open>
  \<open>Number.prototype.toFixed(2)\<close>. A magnitude of at least \<open>10^21\<close> is printed by the
  number-to-string conversion of the runtime, the parameter \<open>numToStr\<close>.
\<close>

function decimalDigits :: "nat \<Rightarrow> jsstring" where
  "decimalDigits n = (if n < 10 then [48 + n] else decimalDigits (n div 10) @ [48 + n mod 10])"
  by pat_completeness auto
termination
  by (relation "measure id") auto

definition toFixed2 :: "(real \<Rightarrow> jsstring) \<Rightarrow> jsnum \<Rightarrow> jsstring" where
  "toFixed2 numToStr v =
     (case v of
        NaN \<Rightarrow> utf16 ''NaN''
      | PosInf \<Rightarrow> utf16 ''Infinity''
      | NegInf \<Rightarrow> utf16 ''-Infinity''
      | Fin x \<Rightarrow>
          (let s = (if x < 0 then utf16 ''-'' else []);
               a = \<bar>x\<bar>
           in if a \<ge> 10 ^ 21 then s @ numToStr a
              else
                let n = nat \<lfloor>a * 100 + 1 / 2\<rfloor>
                in s @ decimalDigits (n div 100) @ utf16 ''.''
                     @ [48 + n mod 100 div 10, 48 + n mod 10]))"

text \<open>
  One record of the result list. The field names of the source are Chinese; they are
  written here in pinyin: \<open>biaoti\<close> (title), \<open>meiti_mingcheng\<close> (media name),
  \<open>xiangmu_zongfen\<close> (project total score), \<open>zhen_xuqiu\<close> (true demand),
  \<open>huoke_xiaoneng\<close> (acquisition), \<open>shengliang\<close> (volume), \<open>hexin_xinxi_pipei\<close>
  (key message match), \<open>shouzhong_jingzhundu\<close> (audience precision), \<open>meiti_fenji\<close>
  (media tier), \<open>chuanbo_zhiliang\<close> (volume quality), \<open>pingjia\<close> (comment).
\<close>

record BatchResult =
  biaoti :: jsstring
  meiti_mingcheng :: jsstring
  xiangmu_zongfen :: jsstring
  zhen_xuqiu :: jsstring
  huoke_xiaoneng :: jsnum
  shengliang :: jsstring
  hexin_xinxi_pipei :: jsnum
  shouzhong_jingzhundu :: jsnum
  meiti_fenji :: jsnum
  chuanbo_zhiliang :: jsnum
  pingjia :: jsstring

text \<open>Line 165 of the component: the volume composite.\<close>

definition volTotalOf :: "jsnum \<Rightarrow> jsnum \<Rightarrow> jsnum" where
  "volTotalOf volQuality tierScore =
     js_add (js_mul (Fin 0.6) volQuality) (js_mul (Fin 0.4) tierScore)"

text \<open>Lines 182 and 183: true demand and the total.\<close>

definition trueDemandOf :: "AIAnalysisResult \<Rightarrow> jsnum" where
  "trueDemandOf aiRes =
     js_add (js_mul (Fin 0.6) (km_score aiRes)) (js_mul (Fin 0.4) (audience_precision_score aiRes))"

definition totalScoreOf :: "jsnum \<Rightarrow> AIAnalysisResult \<Rightarrow> jsnum \<Rightarrow> jsnum" where
  "totalScoreOf trueDemand aiRes volTotal =
     js_add (js_add (js_mul (Fin 0.5) trueDemand) (js_mul (Fin 0.2) (acquisition_score aiRes)))
       (js_mul (Fin 0.3) volTotal)"

text \<open>Lines 165 and 182 to 197: the record pushed for a row.\<close>

definition composeRecord ::
  "(real \<Rightarrow> jsstring) \<Rightarrow> jsstring \<Rightarrow> jsstring \<Rightarrow> jsnum \<Rightarrow> jsnum \<Rightarrow> AIAnalysisResult \<Rightarrow> BatchResult" where
  "composeRecord numToStr title mediaName volQuality tierScore aiRes =
     (let volTotal = volTotalOf volQuality tierScore;
          trueDemand = trueDemandOf aiRes;
          totalScore = totalScoreOf trueDemand aiRes volTotal
      in \<lparr>biaoti = title,
          meiti_mingcheng = mediaName,
          xiangmu_zongfen = toFixed2 numToStr totalScore,
          zhen_xuqiu = toFixed2 numToStr trueDemand,
          huoke_xiaoneng = acquisition_score aiRes,
          shengliang = toFixed2 numToStr volTotal,
          hexin_xinxi_pipei = km_score aiRes,
          shouzhong_jingzhundu = audience_precision_score aiRes,
          meiti_fenji = tierScore,
          chuanbo_zhiliang = volQuality,
          pingjia = comment aiRes\<rparr>)"

section \<open>The batch pipeline\<close>

subsection \<open>Input rows\<close>

text \<open>
  A row of \<open>sheet_to_json\<close>, restricted to the columns the loop reads. A column is
  absent (\<open>None\<close>) or holds a cell. The text columns hold strings: \<open>col_meiti_mingcheng\<close>
  and \<open>col_meiti\<close> (media name), \<open>col_biaoti\<close> and \<open>col_Title\<close> (title),
  \<open>col_zhengwen\<close> and \<open>col_Content\<close> (body), \<open>col_URL\<close>, \<open>col_lianjie\<close> and
  \<open>col_Link\<close>. The counters hold a string or a number: \<open>col_liulanliang\<close> and
  \<open>col_PV\<close> (views), \<open>col_dianzanliang\<close> (likes), \<open>col_zhuanfaliang\<close> (shares),
  \<open>col_pinglunliang\<close> (comments).
\<close>

record row =
  col_meiti_mingcheng :: "jsstring option"
  col_meiti :: "jsstring option"
  col_biaoti :: "jsstring option"
  col_Title :: "jsstring option"
  col_zhengwen :: "jsstring option"
  col_Content :: "jsstring option"
  col_liulanliang :: "cell option"
  col_PV :: "cell option"
  col_dianzanliang :: "cell option"
  col_zhuanfaliang :: "cell option"
  col_pinglunliang :: "cell option"
  col_URL :: "jsstring option"
  col_lianjie :: "jsstring option"
  col_Link :: "jsstring option"

text \<open>\<open>a || d\<close> where \<open>a\<close> is a string column: an absent or empty string is falsy.\<close>

fun str_or :: "jsstring option \<Rightarrow> jsstring \<Rightarrow> jsstring" where
  "str_or None d = d"
| "str_or (Some a) d = (if a \<noteq> [] then a else d)"

fun cell_truthy :: "cell \<Rightarrow> bool" where
  "cell_truthy (Str a) = (a \<noteq> [])"
| "cell_truthy (Num x) = num_truthy x"

fun cell_or :: "cell option \<Rightarrow> cell \<Rightarrow> cell" where
  "cell_or None d = d"
| "cell_or (Some a) d = (if cell_truthy a then a else d)"

text \<open>\<open>parseFloat(row[\<dots>]) || 0\<close>: an absent column is \<open>undefined\<close>, which parses as NaN.\<close>

fun counter :: "cell option \<Rightarrow> jsnum" where
  "counter None = or_zero NaN"
| "counter (Some a) = or_zero (parseFloatCell a)"

text \<open>The defaults: U+672A U+77E5 (unknown) and U+65E0 U+6807 U+9898 (no title).\<close>

definition weizhi :: jsstring where
  "weizhi = [26410, 30693]"

definition wubiaoti :: jsstring where
  "wubiaoti = [26080, 26631, 39064]"

text \<open>The locals of the loop body that are read off the row: lines 157 to 161 and 168.\<close>

record locals =
  l_mediaName :: jsstring
  l_title :: jsstring
  l_views :: cell
  l_interactions :: jsnum
  l_url :: jsstring
  l_content :: jsstring

definition extractRow :: "row \<Rightarrow> locals" where
  "extractRow r =
     (let mediaName = str_or (col_meiti_mingcheng r) (str_or (col_meiti r) weizhi);
          title = str_or (col_biaoti r) (str_or (col_Title r)
                    (str_or (map_option (take 20) (col_zhengwen r)) wubiaoti));
          views = cell_or (col_liulanliang r) (cell_or (col_PV r) (Num (Fin 0)));
          interactions = js_add (js_add (counter (col_dianzanliang r)) (counter (col_zhuanfaliang r)))
                           (counter (col_pinglunliang r));
          url = str_or (col_URL r) (str_or (col_lianjie r) (str_or (col_Link r) []));
          content = str_or (col_zhengwen r) (str_or (col_Content r) (str_or (col_biaoti r)
                      (str_or (Some title) [])))
      in \<lparr>l_mediaName = mediaName, l_title = title, l_views = views,
          l_interactions = interactions, l_url = url, l_content = content\<rparr>)"

subsection \<open>The world of a run\<close>

text \<open>What \<open>fetch\<close> meets: it throws, or it returns a response with its \<open>ok\<close> flag and text.\<close>

datatype fetched = FetchThrows | FetchResponse bool jsstring

text \<open>
  The environment of a run: the two runtime functions taken as parameters, the API key,
  what the fetch for row \<open>i\<close> meets, and what the \<open>n\<close>-th remote call made for row \<open>i\<close>
  meets.
\<close>

record env =
  env_lower :: "jsstring \<Rightarrow> jsstring"
  env_numToStr :: "real \<Rightarrow> jsstring"
  env_apiKey :: "jsstring option"
  env_fetch :: "nat \<Rightarrow> jsstring \<Rightarrow> fetched"
  env_generate :: "nat \<Rightarrow> nat \<Rightarrow> response"

definition fetchUrlContent :: "env \<Rightarrow> nat \<Rightarrow> jsstring \<Rightarrow> jsstring option" where
  "fetchUrlContent e i url =
     (case env_fetch e i url of
        FetchThrows \<Rightarrow> None
      | FetchResponse ok body \<Rightarrow> if ok then Some body else None)"

subsection \<open>One row\<close>

text \<open>The floor result of line 167; its comment is U+5F85 U+8BC4 U+4F30 (pending evaluation).\<close>

definition daipinggu :: jsstring where
  "daipinggu = [24453, 35780, 20272]"

definition floorResult :: AIAnalysisResult where
  "floorResult =
     \<lparr>km_score = Fin 1, acquisition_score = Fin 1, audience_precision_score = Fin 1,
      comment = daipinggu\<rparr>"

text \<open>The prefix of the failure comment of line 179: AI, U+5206 U+6790 U+5931 U+8D25, colon, space.\<close>

definition failurePrefix :: jsstring where
  "failurePrefix = [65, 73, 20998, 26512, 22833, 36133, 58, 32]"

text \<open>
  What the processing of a row did besides producing its record: the number of fetches,
  the pacing delays waited before the scorer, and the trace of the call of
  \<open>analyzeWithGemini\<close> (\<open>None\<close> when it was not called).
\<close>

record row_trace =
  fetches :: nat
  pacing :: "int list"
  ai_call :: "call_trace option"

text \<open>Lines 170 to 173: the content after the attempt to fetch it, and the number of fetches.\<close>

definition resolveContent :: "env \<Rightarrow> nat \<Rightarrow> jsstring \<Rightarrow> jsstring \<Rightarrow> jsstring \<times> nat" where
  "resolveContent e i content url =
     (if content = [] \<and> url \<noteq> [] \<and> prefix (utf16 ''http'') url then
        (case fetchUrlContent e i url of
           Some scraped \<Rightarrow> (if scraped \<noteq> [] then scraped else content, 1)
         | None \<Rightarrow> (content, 1))
      else (content, 0))"

text \<open>
  Lines 167 and 175 to 180: the guarded call of the scorer for row \<open>i\<close>, given the
  resolved content and the media name.
\<close>

definition aiStep :: "env \<Rightarrow> nat \<Rightarrow> jsstring \<Rightarrow> jsstring \<Rightarrow> AIAnalysisResult \<times> int list \<times> call_trace option" where
  "aiStep e i content mediaName =
     (if content \<noteq> [] \<or> mediaName \<noteq> [] then
        (let t = analyzeWithGemini (env_apiKey e) (env_generate e i)
         in (case outcome t of
               Inr r \<Rightarrow> r
             | Inl msg \<Rightarrow> floorResult\<lparr>comment := failurePrefix @ msg\<rparr>,
             if i > 0 then [800] else [], Some t))
      else (floorResult, [], None))"

text \<open>Lines 163 to 197 for row \<open>i\<close>, from the locals read off the row.\<close>

definition scoreRow :: "env \<Rightarrow> Tiers \<Rightarrow> nat \<Rightarrow> locals \<Rightarrow> BatchResult \<times> row_trace" where
  "scoreRow e tiers i x =
     (let volQuality = calculateVolumeQuality (l_views x) (Num (l_interactions x));
          tierScore = getMediaTierScore (env_lower e) tiers (Some (l_mediaName x));
          (content, nfetch) = resolveContent e i (l_content x) (l_url x);
          (aiRes, waits, t) = aiStep e i content (l_mediaName x)
      in (composeRecord (env_numToStr e) (l_title x) (l_mediaName x) volQuality tierScore aiRes,
          \<lparr>fetches = nfetch, pacing = waits, ai_call = t\<rparr>))"

subsection \<open>The loop\<close>

text \<open>
  Line 198: the value passed to \<open>setProgress\<close> after row \<open>i\<close> of \<open>totalRows\<close>, with the
  quotient and \<open>Math.round\<close> taken over the reals. The body of the loop runs only for
  \<open>i < totalRows\<close>, so the division is by a positive number.
\<close>

definition progressPct :: "nat \<Rightarrow> nat \<Rightarrow> int" where
  "progressPct i totalRows = \<lfloor>(real (i + 1) / real totalRows) * 100 + 1 / 2\<rfloor>"

text \<open>
  The state of the loop: the result list, the values passed to \<open>setProgress\<close> in order,
  and the trace of every row.
\<close>

record batch_run =
  results :: "BatchResult list"
  progressUpdates :: "int list"
  rowTraces :: "row_trace list"

fun batchLoop :: "env \<Rightarrow> Tiers \<Rightarrow> nat \<Rightarrow> nat \<Rightarrow> row list \<Rightarrow> batch_run \<Rightarrow> batch_run" where
  "batchLoop e tiers totalRows i [] st = st"
| "batchLoop e tiers totalRows i (r # rest) st =
     (let (rec, tr) = scoreRow e tiers i (extractRow r)
      in batchLoop e tiers totalRows (Suc i) rest
           \<lparr>results = results st @ [rec],
            progressUpdates = progressUpdates st @ [progressPct i totalRows],
            rowTraces = rowTraces st @ [tr]\<rparr>)"

text \<open>The state of the component that the handler writes.\<close>

record ui_state =
  isProcessing :: bool
  errorLog :: jsstring
  batchResults :: "BatchResult list option"
  progress :: int

text \<open>The prefix of the batch error of line 201: Excel, space, U+5904 U+7406 U+9519 U+8BEF, colon, space.\<close>

definition excelErrorPrefix :: jsstring where
  "excelErrorPrefix = [69, 120, 99, 101, 108, 32, 22788, 29702, 38169, 35823, 58, 32]"

text \<open>
  \<open>handleExcelFile\<close> for a chosen file: \<open>sheet\<close> is the message of the error thrown
  while the workbook is read, or the rows of its first sheet. The result is the state of
  the component at the end and the run of the loop.
\<close>

definition handleExcelFile :: "env \<Rightarrow> Tiers \<Rightarrow> jsstring + row list \<Rightarrow> ui_state \<times> batch_run" where
  "handleExcelFile e tiers sheet =
     (case sheet of
        Inl msg \<Rightarrow>
          (\<lparr>isProcessing = False, errorLog = excelErrorPrefix @ msg, batchResults = None,
            progress = 0\<rparr>,
           \<lparr>results = [], progressUpdates = [], rowTraces = []\<rparr>)
      | Inr json \<Rightarrow>
          (let run = batchLoop e tiers (length json) 0 json
                       \<lparr>results = [], progressUpdates = [], rowTraces = []\<rparr>
           in (\<lparr>isProcessing = False, errorLog = [], batchResults = Some (results run),
                progress = (if progressUpdates run = [] then 0 else last (progressUpdates run))\<rparr>,
               run)))"

section \<open>Aggregation\<close>

text \<open>The keys of a result record, and the value of a record at a key.\<close>

datatype key =
  K_biaoti | K_meiti_mingcheng | K_xiangmu_zongfen | K_zhen_xuqiu | K_huoke_xiaoneng |
  K_shengliang | K_hexin_xinxi_pipei | K_shouzhong_jingzhundu | K_meiti_fenji |
  K_chuanbo_zhiliang | K_pingjia

fun field :: "BatchResult \<Rightarrow> key \<Rightarrow> cell" where
  "field b K_biaoti = Str (biaoti b)"
| "field b K_meiti_mingcheng = Str (meiti_mingcheng b)"
| "field b K_xiangmu_zongfen = Str (xiangmu_zongfen b)"
| "field b K_zhen_xuqiu = Str (zhen_xuqiu b)"
| "field b K_huoke_xiaoneng = Num (huoke_xiaoneng b)"
| "field b K_shengliang = Str (shengliang b)"
| "field b K_hexin_xinxi_pipei = Num (hexin_xinxi_pipei b)"
| "field b K_shouzhong_jingzhundu = Num (shouzhong_jingzhundu b)"
| "field b K_meiti_fenji = Num (meiti_fenji b)"
| "field b K_chuanbo_zhiliang = Num (chuanbo_zhiliang b)"
| "field b K_pingjia = Str (pingjia b)"

text \<open>
  \<open>avg\<close> of lines 276 and 277, and the same expression of line 513:
  \<open>batchResults.reduce((a, b) => a + parseFloat(b[key] || "0"), 0) / batchResults.length\<close>.
\<close>

definition avg :: "BatchResult list \<Rightarrow> key \<Rightarrow> jsnum" where
  "avg rs k =
     js_div
       (foldl (\<lambda>a b. js_add a (parseFloatCell (cell_or (Some (field b k)) (Str (utf16 ''0''))))) (Fin 0) rs)
       (Fin (real (length rs)))"

text \<open>
  Lines 270 and 279 to 281: the data of the radar chart, computed when a result list is
  present (\<open>batchResults\<close> is not null).
\<close>

definition radarData :: "BatchResult list option \<Rightarrow> jsnum list option" where
  "radarData br =
     (case br of
        None \<Rightarrow> None
      | Some rs \<Rightarrow>
          Some (map (avg rs)
            [K_hexin_xinxi_pipei, K_huoke_xiaoneng, K_shouzhong_jingzhundu, K_meiti_fenji,
             K_chuanbo_zhiliang]))"

text \<open>
  Lines 507 to 517: the four summary metrics as they are displayed, when a result list
  is present.
\<close>

definition summaryMetrics :: "(real \<Rightarrow> jsstring) \<Rightarrow> BatchResult list option \<Rightarrow> jsstring list option" where
  "summaryMetrics numToStr br =
     (case br of
        None \<Rightarrow> None
      | Some rs \<Rightarrow>
          Some (map (\<lambda>k. toFixed2 numToStr (avg rs k))
            [K_xiangmu_zongfen, K_zhen_xuqiu, K_huoke_xiaoneng, K_shengliang]))"

section \<open>The volume quality as the specification words it\<close>

text \<open>
  The formula of the specification over the reals:
  \<open>min(10, round10(log10(views + interactions*5 + 10) * 1.5))\<close> with
  \<open>round10(x) = round(x*10)/10\<close>. It is compared with \<open>calculateVolumeQuality\<close> below.
\<close>

definition round10 :: "real \<Rightarrow> real" where
  "round10 x = real_of_int (round (x * 10)) / 10"

definition volumeQuality_spec :: "real \<Rightarrow> real \<Rightarrow> real" where
  "volumeQuality_spec v i = min 10 (round10 (log 10 (v + i * 5 + 10) * 1.5))"

section \<open>Notions used to state the retry policy\<close>

text \<open>The \<open>j\<close>-th remote call fails with an error that \<open>analyzeWithGemini\<close> classifies as rate limiting.\<close>

definition rateLimited :: "(nat \<Rightarrow> response) \<Rightarrow> nat \<Rightarrow> bool" where
  "rateLimited g j \<longleftrightarrow> (case attempt (g j) of Inl m \<Rightarrow> isRateLimit m | Inr r \<Rightarrow> False)"

text \<open>A remote service that answers the first three calls with HTTP 429 and then succeeds.\<close>

definition threeThenOk :: "AIAnalysisResult \<Rightarrow> nat \<Rightarrow> response" where
  "threeThenOk r n = (if n < 3 then Throws (utf16 ''HTTP 429 Too Many Requests'') else Parsed r)"

section \<open>Example inputs\<close>

text \<open>A row without any column, a row of the outlet CCTV with 2000 views, a tier configuration, a
  result of the scorer, and an environment whose remote calls are given by \<open>gen\<close>.\<close>

definition emptyRow :: row where
  "emptyRow =
     \<lparr>col_meiti_mingcheng = None, col_meiti = None, col_biaoti = None, col_Title = None,
      col_zhengwen = None, col_Content = None, col_liulanliang = None, col_PV = None,
      col_dianzanliang = None, col_zhuanfaliang = None, col_pinglunliang = None,
      col_URL = None, col_lianjie = None, col_Link = None\<rparr>"

definition exampleRow :: row where
  "exampleRow =
     emptyRow\<lparr>col_meiti_mingcheng := Some (utf16 ''CCTV''), col_biaoti := Some (utf16 ''Trial''),
       col_liulanliang := Some (Num (Fin 2000))\<rparr>"

definition exampleTiers :: Tiers where
  "exampleTiers = \<lparr>tier1 = utf16 ''cctv'', tier2 = [], tier3 = utf16 ''tv''\<rparr>"

definition exampleResult :: AIAnalysisResult where
  "exampleResult =
     \<lparr>km_score = Fin 8, acquisition_score = Fin 6, audience_precision_score = Fin 7,
      comment = utf16 ''ok''\<rparr>"

definition exampleEnv :: "(nat \<Rightarrow> nat \<Rightarrow> response) \<Rightarrow> env" where
  "exampleEnv gen =
     \<lparr>env_lower = asciiLower, env_numToStr = (\<lambda>x. []), env_apiKey = Some (utf16 ''key''),
      env_fetch = (\<lambda>i url. FetchThrows), env_generate = gen\<rparr>"



section \<open>Evaluation rules\<close>

lemmas js_eval =
  utf16_def replaceK_def stripNonNumeric_def isDigit_def parseFloat_def trimStart_def
  isWhiteSpace_def parseUnsigned_def decimalValue_def digitsValue_def exponentFactor_def
  or_zero_def

section \<open>Input coercion of the volume quality\<close>

lemma or_zero_not_NaN: "or_zero x \<noteq> NaN"
  by (cases x) (simp_all add: or_zero_def)

lemma cleanNum_not_NaN: "cleanNum c \<noteq> NaN"
  by (cases c) (simp_all add: or_zero_not_NaN)

text \<open>
  C7. The coercion \<open>cleanNum\<close> replaces every k or K by the three characters 000 before
  parsing. For the string 2.5k this gives 2.5000, which parses as 2.5 and not as 2500;
  a suffix after an integer is expanded as intended (2k gives 2000). The string 1,234
  parses as 1234. A string is parsed after the replacement and the stripping, NaN is
  taken as 0 (so a string without any digit gives 0), and no input yields NaN.
\<close>

theorem cleanNum_k_suffix_decimal:
  "cleanNum (Str (utf16 ''2.5k'')) = Fin (5 / 2)
   \<and> cleanNum (Str (utf16 ''2.5k'')) \<noteq> Fin 2500
   \<and> cleanNum (Str (utf16 ''2k'')) = Fin 2000
   \<and> cleanNum (Str (utf16 ''1,234'')) = Fin 1234
   \<and> cleanNum (Str (utf16 ''n/a'')) = Fin 0
   \<and> cleanNum (Str []) = Fin 0
   \<and> cleanNum (Str x) = or_zero (parseFloat (stripNonNumeric (replaceK x)))
   \<and> or_zero NaN = Fin 0
   \<and> cleanNum c \<noteq> NaN"
proof -
  have "cleanNum (Str (utf16 ''2.5k'')) = Fin (5 / 2)" "cleanNum (Str (utf16 ''2k'')) = Fin 2000"
    "cleanNum (Str (utf16 ''1,234'')) = Fin 1234" "cleanNum (Str (utf16 ''n/a'')) = Fin 0"
    "cleanNum (Str []) = Fin 0"
    by (simp_all add: js_eval)
  then show ?thesis using cleanNum_not_NaN[of c] by (simp add: or_zero_def)
qed

section \<open>Range and monotonicity of the volume quality\<close>

lemma calculateVolumeQuality_Fin:
  assumes "0 \<le> v" "0 \<le> i"
  shows "calculateVolumeQuality (Num (Fin v)) (Num (Fin i)) = Fin (volumeQuality_spec v i)"
proof -
  have pos: "0 < v + i * 5 + 10" using assms by simp
  have cv: "cleanNum (Num (Fin v)) = Fin v" "cleanNum (Num (Fin i)) = Fin i"
    by (simp_all add: or_zero_def)
  show ?thesis
    using pos
    unfolding calculateVolumeQuality_def cv Let_def volumeQuality_spec_def round10_def round_def
    by (simp add: mult.commute)
qed

lemma volumeQuality_spec_mono:
  assumes "0 \<le> v" "0 \<le> i" "v \<le> v'" "i \<le> i'"
  shows "volumeQuality_spec v i \<le> volumeQuality_spec v' i'"
proof -
  have "0 < v + i * 5 + 10" "v + i * 5 + 10 \<le> v' + i' * 5 + 10" using assms by simp_all
  then have "log 10 (v + i * 5 + 10) \<le> log 10 (v' + i' * 5 + 10)"
    by (simp add: log_le_cancel_iff)
  then have "round (log 10 (v + i * 5 + 10) * 1.5 * 10) \<le> round (log 10 (v' + i' * 5 + 10) * 1.5 * 10)"
    by (intro round_mono) simp
  then show ?thesis
    unfolding volumeQuality_spec_def round10_def by (simp add: divide_right_mono min.coboundedI2)
qed

lemma volumeQuality_spec_lower:
  assumes "0 \<le> v" "0 \<le> i"
  shows "3 / 2 \<le> volumeQuality_spec v i"
proof -
  have "log 10 10 \<le> log 10 (v + i * 5 + 10)"
    using assms by (subst log_le_cancel_iff) simp_all
  then have "1 \<le> log 10 (v + i * 5 + 10)" by simp
  then have "round (15::real) \<le> round (log 10 (v + i * 5 + 10) * 1.5 * 10)"
    by (intro round_mono) simp
  then have "15 \<le> round (log 10 (v + i * 5 + 10) * 1.5 * 10)" by simp
  then show ?thesis unfolding volumeQuality_spec_def round10_def by simp
qed

text \<open>
  C6. For finite non-negative numbers \<open>views\<close> and \<open>interactions\<close>,
  \<open>calculateVolumeQuality\<close> returns the finite number given by the formula of the
  specification, \<open>min(10, round10(log10(views + interactions*5 + 10) * 1.5))\<close>; it lies
  between 0 and 10, and it does not decrease when either argument grows.
\<close>

theorem calculateVolumeQuality_range_mono:
  assumes "0 \<le> v" "0 \<le> i" "v \<le> v'" "i \<le> i'"
  shows "\<exists>q q'. calculateVolumeQuality (Num (Fin v)) (Num (Fin i)) = Fin q
           \<and> calculateVolumeQuality (Num (Fin v')) (Num (Fin i')) = Fin q'
           \<and> q = volumeQuality_spec v i \<and> q' = volumeQuality_spec v' i'
           \<and> q = min 10 (real_of_int (round (log 10 (v + i * 5 + 10) * 1.5 * 10)) / 10)
           \<and> 0 \<le> q \<and> q \<le> 10 \<and> q \<le> q' \<and> q' \<le> 10"
proof -
  have "0 \<le> v'" "0 \<le> i'" using assms by simp_all
  then show ?thesis
    using assms calculateVolumeQuality_Fin[of v i] calculateVolumeQuality_Fin[of v' i']
      volumeQuality_spec_mono[of v i v' i'] volumeQuality_spec_lower[of v i]
    by (simp add: volumeQuality_spec_def round10_def)
qed

theorem calculateVolumeQuality_range_mono_witness:
  "calculateVolumeQuality (Num (Fin 0)) (Num (Fin 0)) = Fin (3 / 2)
   \<and> calculateVolumeQuality (Num (Fin 90)) (Num (Fin 0)) = Fin 3
   \<and> calculateVolumeQuality (Num (Fin 0)) (Num (Fin 18)) = Fin 3"
proof -
  have l: "log 10 100 = 2" using log_pow_cancel[of 10 2] by simp
  have "volumeQuality_spec 0 0 = 3 / 2" "volumeQuality_spec 90 0 = 3" "volumeQuality_spec 0 18 = 3"
    by (simp_all add: volumeQuality_spec_def round10_def l)
  then show ?thesis
    using calculateVolumeQuality_range_mono[of 0 0 90 0] calculateVolumeQuality_range_mono[of 0 0 0 18]
    by auto
qed

section \<open>The media tier score\<close>

lemma str_includes_sublist: "str_includes s m \<longleftrightarrow> sublist m s"
  by (induction s) (simp_all add: sublist_Cons_right)

lemma splitOn_not_Nil: "splitOn P s \<noteq> []"
  by (induction s) (auto split: list.splits)






section \<open>The retry policy of the scorer client\<close>

declare retryLoop.simps [simp del]

lemma retryLoop_0:
  "retryLoop g 0 b n w =
     (case attempt (g n) of
        Inr r \<Rightarrow> \<lparr>outcome = Inr r, delays = w, calls = Suc n\<rparr>
      | Inl m \<Rightarrow> \<lparr>outcome = Inl m, delays = w, calls = Suc n\<rparr>)"
  by (subst retryLoop.simps) (simp split: sum.splits)

lemma retryLoop_pos:
  "0 < k \<Longrightarrow> retryLoop g k b n w =
     (case attempt (g n) of
        Inr r \<Rightarrow> \<lparr>outcome = Inr r, delays = w, calls = Suc n\<rparr>
      | Inl m \<Rightarrow> if isRateLimit m then retryLoop g (k - 1) (b * 2) (Suc n) (w @ [b])
                 else \<lparr>outcome = Inl m, delays = w, calls = Suc n\<rparr>)"
  by (subst retryLoop.simps) (simp split: sum.splits)

lemma analyze_unfold:
  "\<not> apiKeyMissing k \<Longrightarrow> analyzeWithGemini k g =
    (case attempt (g 0) of
       Inr r \<Rightarrow> \<lparr>outcome = Inr r, delays = [], calls = 1\<rparr>
     | Inl m0 \<Rightarrow>
        if \<not> isRateLimit m0 then \<lparr>outcome = Inl m0, delays = [], calls = 1\<rparr>
        else (case attempt (g 1) of
          Inr r \<Rightarrow> \<lparr>outcome = Inr r, delays = [2000], calls = 2\<rparr>
        | Inl m1 \<Rightarrow>
           if \<not> isRateLimit m1 then \<lparr>outcome = Inl m1, delays = [2000], calls = 2\<rparr>
           else (case attempt (g 2) of
             Inr r \<Rightarrow> \<lparr>outcome = Inr r, delays = [2000, 4000], calls = 3\<rparr>
           | Inl m2 \<Rightarrow>
              if \<not> isRateLimit m2 then \<lparr>outcome = Inl m2, delays = [2000, 4000], calls = 3\<rparr>
              else (case attempt (g 3) of
                Inr r \<Rightarrow> \<lparr>outcome = Inr r, delays = [2000, 4000, 8000], calls = 4\<rparr>
              | Inl m3 \<Rightarrow> \<lparr>outcome = Inl m3, delays = [2000, 4000, 8000], calls = 4\<rparr>))))"
  by (simp add: analyzeWithGemini_def retryLoop_pos retryLoop_0 numeral_2_eq_2 numeral_3_eq_3 split: sum.splits)


lemma all_less_3: "(\<forall>j<3. P j) \<longleftrightarrow> P 0 \<and> P (Suc 0) \<and> P (2::nat)"
  by (auto simp: less_Suc_eq numeral_eq_Suc)
lemma all_less_2: "(\<forall>j<2. P j) \<longleftrightarrow> P 0 \<and> P (Suc 0)"
  by (auto simp: less_Suc_eq numeral_eq_Suc)

lemma analyze_shape:
  assumes "\<not> apiKeyMissing k"
  shows "calls (analyzeWithGemini k g) \<in> {1, 2, 3, 4}
    \<and> delays (analyzeWithGemini k g) = take (calls (analyzeWithGemini k g) - 1) [2000, 4000, 8000]
    \<and> outcome (analyzeWithGemini k g) = attempt (g (calls (analyzeWithGemini k g) - 1))
    \<and> (\<forall>j<calls (analyzeWithGemini k g) - 1. rateLimited g j)
    \<and> (rateLimited g (calls (analyzeWithGemini k g) - 1) \<longrightarrow> calls (analyzeWithGemini k g) = 4)"
  unfolding analyze_unfold[OF assms] rateLimited_def
  by (simp add: all_less_3 all_less_2 split: sum.splits)

lemma analyze_success_after:
  assumes "\<not> apiKeyMissing k" "n \<le> 3" "\<forall>j<n. rateLimited g j" "attempt (g n) = Inr r"
  shows "outcome (analyzeWithGemini k g) = Inr r \<and> calls (analyzeWithGemini k g) = Suc n
     \<and> delays (analyzeWithGemini k g) = take n [2000, 4000, 8000]"
proof -
  from assms(2) consider "n = 0" | "n = 1" | "n = 2" | "n = 3" by linarith
  then show ?thesis
    using assms(3,4) unfolding analyze_unfold[OF assms(1)] rateLimited_def
    by cases (auto simp: all_less_3 all_less_2 split: sum.splits)
qed

lemma analyze_fail_fast:
  assumes "\<not> apiKeyMissing k" "n \<le> 3" "\<forall>j<n. rateLimited g j" "attempt (g n) = Inl msg" "\<not> isRateLimit msg"
  shows "outcome (analyzeWithGemini k g) = Inl msg \<and> calls (analyzeWithGemini k g) = Suc n
     \<and> delays (analyzeWithGemini k g) = take n [2000, 4000, 8000]"
proof -
  from assms(2) consider "n = 0" | "n = 1" | "n = 2" | "n = 3" by linarith
  then show ?thesis
    using assms(3,4,5) unfolding analyze_unfold[OF assms(1)] rateLimited_def
    by cases (auto simp: all_less_3 all_less_2 split: sum.splits)
qed

lemma analyze_exhausted:
  assumes "\<not> apiKeyMissing k" "\<forall>j<3. rateLimited g j" "attempt (g 3) = Inl msg"
  shows "outcome (analyzeWithGemini k g) = Inl msg \<and> calls (analyzeWithGemini k g) = 4
     \<and> delays (analyzeWithGemini k g) = [2000, 4000, 8000]"
  using assms(2,3) unfolding analyze_unfold[OF assms(1)] rateLimited_def
  by (auto simp: all_less_3 all_less_2 split: sum.splits)

text \<open>
  C2. With an API key present, \<open>analyzeWithGemini\<close> makes between one and four remote
  calls; it waits 2000, then 4000, then 8000 milliseconds before the second, third and
  fourth call, and every call but the last failed with an error classified as rate
  limiting (a message containing 429 or RESOURCE_EXHAUSTED). Its outcome is that of the
  last call. Three rate-limited failures followed by a success give the success after
  14000 milliseconds of waiting; a failure that is not rate limiting is thrown to the
  caller at once, with no further call; a fourth rate-limited failure is thrown to the
  caller.
\<close>

theorem analyzeWithGemini_retry_policy:
  assumes "\<not> apiKeyMissing k"
  shows "(calls (analyzeWithGemini k g) \<in> {1, 2, 3, 4}
      \<and> delays (analyzeWithGemini k g) = take (calls (analyzeWithGemini k g) - 1) [2000, 4000, 8000]
      \<and> outcome (analyzeWithGemini k g) = attempt (g (calls (analyzeWithGemini k g) - 1))
      \<and> (\<forall>j<calls (analyzeWithGemini k g) - 1. rateLimited g j))
    \<and> ((\<forall>j<3. rateLimited g j) \<and> attempt (g 3) = Inr r
        \<longrightarrow> outcome (analyzeWithGemini k g) = Inr r
          \<and> delays (analyzeWithGemini k g) = [2000, 4000, 8000]
          \<and> sum_list (delays (analyzeWithGemini k g)) = 14000)
    \<and> (n \<le> 3 \<and> (\<forall>j<n. rateLimited g j) \<and> attempt (g n) = Inl msg \<and> \<not> isRateLimit msg
        \<longrightarrow> outcome (analyzeWithGemini k g) = Inl msg \<and> calls (analyzeWithGemini k g) = Suc n
          \<and> delays (analyzeWithGemini k g) = take n [2000, 4000, 8000])
    \<and> ((\<forall>j<3. rateLimited g j) \<and> attempt (g 3) = Inl msg' \<and> isRateLimit msg'
        \<longrightarrow> outcome (analyzeWithGemini k g) = Inl msg' \<and> calls (analyzeWithGemini k g) = 4
          \<and> delays (analyzeWithGemini k g) = [2000, 4000, 8000])
    \<and> (isRateLimit m \<longleftrightarrow> sublist (utf16 ''429'') m \<or> sublist (utf16 ''RESOURCE_EXHAUSTED'') m)"
proof -
  have d: "isRateLimit m \<longleftrightarrow> sublist (utf16 ''429'') m \<or> sublist (utf16 ''RESOURCE_EXHAUSTED'') m"
    by (simp add: isRateLimit_def str_includes_sublist)
  have a: "(\<forall>j<3. rateLimited g j) \<and> attempt (g 3) = Inr r
        \<longrightarrow> outcome (analyzeWithGemini k g) = Inr r
          \<and> delays (analyzeWithGemini k g) = [2000, 4000, 8000]
          \<and> sum_list (delays (analyzeWithGemini k g)) = 14000"
    using analyze_success_after[OF assms, of 3 g r] by simp
  have b: "n \<le> 3 \<and> (\<forall>j<n. rateLimited g j) \<and> attempt (g n) = Inl msg \<and> \<not> isRateLimit msg
        \<longrightarrow> outcome (analyzeWithGemini k g) = Inl msg \<and> calls (analyzeWithGemini k g) = Suc n
          \<and> delays (analyzeWithGemini k g) = take n [2000, 4000, 8000]"
    using analyze_fail_fast[OF assms, of n g msg] by blast
  have c: "(\<forall>j<3. rateLimited g j) \<and> attempt (g 3) = Inl msg' \<and> isRateLimit msg'
        \<longrightarrow> outcome (analyzeWithGemini k g) = Inl msg' \<and> calls (analyzeWithGemini k g) = 4
          \<and> delays (analyzeWithGemini k g) = [2000, 4000, 8000]"
    using analyze_exhausted[OF assms, of g msg'] by blast
  show ?thesis using analyze_shape[OF assms, of g] a b c d by blast
qed

theorem analyzeWithGemini_retry_policy_witness:
  "outcome (analyzeWithGemini (Some (utf16 ''key'')) (threeThenOk floorResult)) = Inr floorResult
   \<and> sum_list (delays (analyzeWithGemini (Some (utf16 ''key'')) (threeThenOk floorResult))) = 14000
   \<and> outcome (analyzeWithGemini (Some (utf16 ''key'')) (\<lambda>n. Throws (utf16 ''403 forbidden''))) = Inl (utf16 ''403 forbidden'')
   \<and> calls (analyzeWithGemini (Some (utf16 ''key'')) (\<lambda>n. Throws (utf16 ''403 forbidden''))) = 1
   \<and> outcome (analyzeWithGemini (Some (utf16 ''key'')) (\<lambda>n. Throws (utf16 ''RESOURCE_EXHAUSTED''))) = Inl (utf16 ''RESOURCE_EXHAUSTED'')
   \<and> calls (analyzeWithGemini (Some (utf16 ''key'')) (\<lambda>n. Throws (utf16 ''RESOURCE_EXHAUSTED''))) = 4"
proof -
  have k: "\<not> apiKeyMissing (Some (utf16 ''key''))" by (simp add: apiKeyMissing_def utf16_def)
  have r3: "\<forall>j<3. rateLimited (threeThenOk floorResult) j"
    by (simp add: rateLimited_def threeThenOk_def isRateLimit_def utf16_def)
  have ok: "attempt (threeThenOk floorResult 3) = Inr floorResult" by (simp add: threeThenOk_def)
  have nr: "\<not> isRateLimit (utf16 ''403 forbidden'')" by (simp add: isRateLimit_def utf16_def)
  have rl: "isRateLimit (utf16 ''RESOURCE_EXHAUSTED'')" by (simp add: isRateLimit_def utf16_def)
  have r3': "\<forall>j<3. rateLimited (\<lambda>n. Throws (utf16 ''RESOURCE_EXHAUSTED'')) j"
    using rl by (simp add: rateLimited_def)
  have a: "outcome (analyzeWithGemini (Some (utf16 ''key'')) (threeThenOk floorResult)) = Inr floorResult
   \<and> sum_list (delays (analyzeWithGemini (Some (utf16 ''key'')) (threeThenOk floorResult))) = 14000"
    using analyzeWithGemini_retry_policy[OF k, of "threeThenOk floorResult" floorResult 0 "[]" "[]"] r3 ok
    by blast
  have b: "outcome (analyzeWithGemini (Some (utf16 ''key'')) (\<lambda>n. Throws (utf16 ''403 forbidden''))) = Inl (utf16 ''403 forbidden'')
   \<and> calls (analyzeWithGemini (Some (utf16 ''key'')) (\<lambda>n. Throws (utf16 ''403 forbidden''))) = 1"
    using analyzeWithGemini_retry_policy[OF k, of "\<lambda>n. Throws (utf16 ''403 forbidden'')" floorResult 0 "utf16 ''403 forbidden''" "[]"] nr
    by simp
  have c: "outcome (analyzeWithGemini (Some (utf16 ''key'')) (\<lambda>n. Throws (utf16 ''RESOURCE_EXHAUSTED''))) = Inl (utf16 ''RESOURCE_EXHAUSTED'')
   \<and> calls (analyzeWithGemini (Some (utf16 ''key'')) (\<lambda>n. Throws (utf16 ''RESOURCE_EXHAUSTED''))) = 4"
    using analyzeWithGemini_retry_policy[OF k, of "\<lambda>n. Throws (utf16 ''RESOURCE_EXHAUSTED'')" floorResult 0 "[]" "utf16 ''RESOURCE_EXHAUSTED''"] rl r3'
    by simp
  show ?thesis using a b c by blast
qed


section \<open>The loop as a map over the rows\<close>

lemma batchLoop_eq:
  "batchLoop e tiers T i rows st =
     \<lparr>results = results st @ map (\<lambda>j. fst (scoreRow e tiers (i + j) (extractRow (rows ! j)))) [0..<length rows],
      progressUpdates = progressUpdates st @ map (\<lambda>j. progressPct (i + j) T) [0..<length rows],
      rowTraces = rowTraces st @ map (\<lambda>j. snd (scoreRow e tiers (i + j) (extractRow (rows ! j)))) [0..<length rows]\<rparr>"
proof (induction rows arbitrary: i st)
  case Nil
  then show ?case by simp
next
  case (Cons r rest)
  show ?case
    by (simp add: Cons.IH split_beta map_upt_Suc del: upt_Suc)
qed

lemma handleExcelFile_run:
  "snd (handleExcelFile e tiers (Inr json)) =
     \<lparr>results = map (\<lambda>j. fst (scoreRow e tiers j (extractRow (json ! j)))) [0..<length json],
      progressUpdates = map (\<lambda>j. progressPct j (length json)) [0..<length json],
      rowTraces = map (\<lambda>j. snd (scoreRow e tiers j (extractRow (json ! j)))) [0..<length json]\<rparr>"
  by (simp add: handleExcelFile_def Let_def batchLoop_eq)




section \<open>Facts about one row\<close>












section \<open>Facts about a run\<close>



lemma run_lengths:
  "length (results (snd (handleExcelFile e tiers (Inr json)))) = length json"
  "length (progressUpdates (snd (handleExcelFile e tiers (Inr json)))) = length json"
  "length (rowTraces (snd (handleExcelFile e tiers (Inr json)))) = length json"
  by (simp_all add: handleExcelFile_run)

lemma run_progress_nth:
  "j < length json \<Longrightarrow>
   progressUpdates (snd (handleExcelFile e tiers (Inr json))) ! j = progressPct j (length json)"
  by (simp add: handleExcelFile_run)



lemma progressPct_last: "0 < N \<Longrightarrow> progressPct (N - 1) N = 100"
  by (simp add: progressPct_def)

lemma progressPct_mono: "i \<le> j \<Longrightarrow> progressPct i N \<le> progressPct j N"
  unfolding progressPct_def
  by (intro floor_mono add_right_mono mult_right_mono divide_right_mono) simp_all

lemma progressPct_range: "j < N \<Longrightarrow> 0 \<le> progressPct j N \<and> progressPct j N \<le> 100"
proof -
  assume a: "j < N"
  then have "real (j + 1) / real N \<le> 1" by simp
  then have "real (j + 1) / real N * 100 \<le> 1 * 100" by (rule mult_right_mono) simp
  then have "real (j + 1) / real N * 100 + 1 / 2 < 101" by linarith
  then have "progressPct j N < 101" unfolding progressPct_def by (simp add: floor_less_iff)
  moreover have "0 \<le> progressPct j N" unfolding progressPct_def by simp
  ultimately show ?thesis by simp
qed

lemma progressPct_100_iff:
  assumes "j < N"
  shows "progressPct j N = 100 \<longleftrightarrow> 199 * N \<le> 200 * (j + 1)"
proof -
  have N: "0 < real N" using assms by simp
  have "progressPct j N = 100 \<longleftrightarrow> 100 \<le> progressPct j N"
    using progressPct_range[OF assms] by auto
  also have "\<dots> \<longleftrightarrow> 100 \<le> real (j + 1) / real N * 100 + 1 / 2"
    unfolding progressPct_def by (simp add: le_floor_iff)
  also have "\<dots> \<longleftrightarrow> 199 * real N \<le> 200 * real (j + 1)"
    using N by (simp add: field_simps)
  also have "\<dots> \<longleftrightarrow> 199 * N \<le> 200 * (j + 1)"
    by (metis of_nat_le_iff of_nat_mult of_nat_numeral)
  finally show ?thesis .
qed

section \<open>Progress\<close>

text \<open>
  In a batch of 201 rows the value passed to \<open>setProgress\<close> after the 200th row (index
  199, which is not the last) is already 100: \<open>200 / 201 * 100\<close> is 99.50\<dots>, which
  \<open>Math.round\<close> takes to 100.
\<close>

theorem progress_reaches_100_early:
  "(199::nat) < 201 - 1
   \<and> progressUpdates (snd (handleExcelFile (exampleEnv (\<lambda>i n. Parsed exampleResult)) exampleTiers
        (Inr (replicate 201 emptyRow)))) ! 199 = 100"
  by (simp add: run_progress_nth progressPct_def)

text \<open>
  C8 (as amended). For every batch of \<open>N\<close> rows, one progress value is emitted per row;
  the values never decrease and lie between 0 and 100; when the batch has a row, the value
  after the last row is 100, and it is the final progress. A row reports 100 exactly
  when at least 99.5 percent of the rows are done (\<open>199 * N \<le> 200 * (j + 1)\<close> for the row
  of index \<open>j\<close>); in a batch of fewer than 200 rows that is the last row only.
\<close>

theorem progress_monotone_final:
  "length (progressUpdates (snd (handleExcelFile e tiers (Inr json)))) = length json
   \<and> sorted (progressUpdates (snd (handleExcelFile e tiers (Inr json))))
   \<and> (\<forall>j<length json.
         0 \<le> progressUpdates (snd (handleExcelFile e tiers (Inr json))) ! j
       \<and> progressUpdates (snd (handleExcelFile e tiers (Inr json))) ! j \<le> 100
       \<and> (progressUpdates (snd (handleExcelFile e tiers (Inr json))) ! j = 100
            \<longleftrightarrow> 199 * length json \<le> 200 * (j + 1))
       \<and> (length json < 200 \<longrightarrow>
            (progressUpdates (snd (handleExcelFile e tiers (Inr json))) ! j = 100 \<longleftrightarrow> j + 1 = length json)))
   \<and> (json \<noteq> [] \<longrightarrow>
         last (progressUpdates (snd (handleExcelFile e tiers (Inr json)))) = 100
       \<and> progress (fst (handleExcelFile e tiers (Inr json))) = 100)"
proof -
  let ?ps = "progressUpdates (snd (handleExcelFile e tiers (Inr json)))"
  have len: "length ?ps = length json" by (rule run_lengths)
  have srt: "sorted ?ps"
    unfolding sorted_iff_nth_mono len
    by (simp add: run_progress_nth progressPct_mono)
  have pt: "\<forall>j<length json. 0 \<le> ?ps ! j \<and> ?ps ! j \<le> 100
       \<and> (?ps ! j = 100 \<longleftrightarrow> 199 * length json \<le> 200 * (j + 1))
       \<and> (length json < 200 \<longrightarrow> (?ps ! j = 100 \<longleftrightarrow> j + 1 = length json))"
  proof (intro allI impI)
    fix j assume j: "j < length json"
    have eq: "?ps ! j = progressPct j (length json)" using j by (rule run_progress_nth)
    have "length json < 200 \<longrightarrow> (199 * length json \<le> 200 * (j + 1) \<longleftrightarrow> j + 1 = length json)"
      using j by auto
    then show "0 \<le> ?ps ! j \<and> ?ps ! j \<le> 100
       \<and> (?ps ! j = 100 \<longleftrightarrow> 199 * length json \<le> 200 * (j + 1))
       \<and> (length json < 200 \<longrightarrow> (?ps ! j = 100 \<longleftrightarrow> j + 1 = length json))"
      unfolding eq using progressPct_range[OF j] progressPct_100_iff[OF j] by blast
  qed
  have lst: "json \<noteq> [] \<longrightarrow> last ?ps = 100 \<and> progress (fst (handleExcelFile e tiers (Inr json))) = 100"
  proof
    assume ne: "json \<noteq> []"
    then have ps_ne: "?ps \<noteq> []" using len by auto
    have "last ?ps = ?ps ! (length json - 1)" using ps_ne len by (simp add: last_conv_nth)
    also have "\<dots> = progressPct (length json - 1) (length json)"
      using ne by (intro run_progress_nth) simp
    also have "\<dots> = 100" using ne by (intro progressPct_last) simp
    finally have l: "last ?ps = 100" .
    have "progress (fst (handleExcelFile e tiers (Inr json))) = (if ?ps = [] then 0 else last ?ps)"
      by (simp add: handleExcelFile_def Let_def)
    then show "last ?ps = 100 \<and> progress (fst (handleExcelFile e tiers (Inr json))) = 100"
      using l ps_ne by simp
  qed
  show ?thesis using len srt pt lst by blast
qed

theorem progress_monotone_final_witness:
  "progressUpdates (snd (handleExcelFile (exampleEnv (\<lambda>i n. Parsed exampleResult)) exampleTiers
        (Inr [emptyRow, exampleRow, emptyRow]))) = [33, 67, 100]
   \<and> progress (fst (handleExcelFile (exampleEnv (\<lambda>i n. Parsed exampleResult)) exampleTiers
        (Inr [emptyRow, exampleRow, emptyRow]))) = 100"
proof -
  let ?r = "handleExcelFile (exampleEnv (\<lambda>i n. Parsed exampleResult)) exampleTiers (Inr [emptyRow, exampleRow, emptyRow])"
  have a: "progressUpdates (snd ?r) = [33, 67, 100]"
    by (simp add: handleExcelFile_run progressPct_def upt_rec numeral_eq_Suc)
  have "progress (fst ?r) = 100"
    using progress_monotone_final[of "exampleEnv (\<lambda>i n. Parsed exampleResult)" exampleTiers "[emptyRow, exampleRow, emptyRow]"]
    by simp
  then show ?thesis using a by simp
qed

section \<open>Averages of an empty result set\<close>

text \<open>
  An empty sheet gives the empty result list (not null), and the summary metrics computed
  from it are the four strings NaN.
\<close>

theorem empty_sheet_metrics_are_NaN:
  "summaryMetrics (\<lambda>x. [])
     (batchResults (fst (handleExcelFile (exampleEnv (\<lambda>i n. Parsed exampleResult)) exampleTiers (Inr []))))
     = Some [utf16 ''NaN'', utf16 ''NaN'', utf16 ''NaN'', utf16 ''NaN'']
   \<and> avg [] K_xiangmu_zongfen = NaN"
  by (simp add: avg_def summaryMetrics_def toFixed2_def handleExcelFile_def)

text \<open>
  C9 (as amended). The rubric average does not guard the division: for the empty result
  set, which an empty sheet produces, it evaluates \<open>0 / 0\<close>, which is NaN and raises no
  error; the radar data are then five NaN and the summary metrics display NaN. The
  averages are skipped only when there is no result list at all (null).
\<close>

theorem avg_of_empty_result_set:
  "avg [] k = NaN
   \<and> batchResults (fst (handleExcelFile e tiers (Inr []))) = Some []
   \<and> radarData (Some []) = Some [NaN, NaN, NaN, NaN, NaN]
   \<and> summaryMetrics nts (Some []) = Some [utf16 ''NaN'', utf16 ''NaN'', utf16 ''NaN'', utf16 ''NaN'']
   \<and> radarData None = None
   \<and> summaryMetrics nts None = None"
  by (simp add: avg_def radarData_def summaryMetrics_def toFixed2_def handleExcelFile_def)

section \<open>The floor result\<close>



section \<open>The example row through the pipeline\<close>







section \<open>The composite scores\<close>





section \<open>A failing row does not stop the batch\<close>



section \<open>The media name is never empty\<close>




end
